theory Spec2Isabelle
  imports Main "HOL-Library.Signed_Division"
begin

section \<open>Go values\<close>

text \<open>
  A Go call either returns or panics (an index out of range, a nil dereference).
  Strings are byte sequences: \<open>command[0]\<close> reads a byte and \<open>command[1:]\<close> drops one.
\<close>

datatype 'a go = Panic | Return 'a

text \<open>
  \<open>strings.Split(s, sep)\<close> for a non-empty separator: \<open>s\<close> is cut at the occurrences of
  \<open>sep\<close>, found from the left and not overlapping. The program calls it with \<open>"/v/"\<close> and
  \<open>" "\<close> only. \<open>acc\<close> holds the bytes of the segment being read.
\<close>

function splitOn :: "string \<Rightarrow> string \<Rightarrow> string \<Rightarrow> string list" where
  "splitOn sep acc [] = [acc]"
| "splitOn sep acc (c # cs) =
     (if sep \<noteq> [] \<and> take (length sep) (c # cs) = sep
      then acc # splitOn sep [] (drop (length sep) (c # cs))
      else splitOn sep (acc @ [c]) cs)"
  by pat_completeness auto
termination
  by (relation "measure (\<lambda>(sep, acc, s). length s)") auto

definition Split :: "string \<Rightarrow> string \<Rightarrow> string list" where
  "Split s sep = splitOn sep [] s"

text \<open>\<open>strings.Contains(s, sep)\<close>: some suffix of \<open>s\<close> starts with \<open>sep\<close>.\<close>

fun Contains :: "string \<Rightarrow> string \<Rightarrow> bool" where
  "Contains [] sep = (sep = [])"
| "Contains (c # cs) sep = (take (length sep) (c # cs) = sep \<or> Contains cs sep)"

text \<open>\<open>strings.Join(segs, sep)\<close>.\<close>

fun Join :: "string list \<Rightarrow> string \<Rightarrow> string" where
  "Join [] sep = []"
| "Join [s] sep = s"
| "Join (s # t # rest) sep = s @ sep @ Join (t # rest) sep"

section \<open>Data\<close>

text \<open>The errors the handlers create or pass on; \<open>err.Error()\<close> is the error itself.\<close>

datatype error =
    MessageFieldEmpty
  | MessageNotAString
  | AlreadyHaveUsername
  | UsernameTaken string
  | UnsupportedRoomSegment
  | ClientNotFound string
  | Rejected string

text \<open>A value of a \<open>map[string]interface{}\<close> payload: a string, or anything else.\<close>

datatype jvalue = VString string | VOther

type_synonym data = "string \<rightharpoonup> jvalue"

text \<open>
  Modelled from the spec: the package \<open>client\<close> is not among the sources. A Client has its
  connection identifier, an optional username and an optional room; \<open>GetUsername\<close> and
  \<open>GetRoom\<close> return the value with a flag, \<open>JoinRoom\<close> sets the room.
\<close>

record Client =
  c_id :: string
  c_username :: "string option"
  c_room :: "string option"

definition NewClient :: "string \<Rightarrow> Client" where
  "NewClient connId = \<lparr>c_id = connId, c_username = None, c_room = None\<rparr>"

definition GetId :: "Client \<Rightarrow> string" where
  "GetId c = c_id c"

definition GetUsername :: "Client \<Rightarrow> string \<times> bool" where
  "GetUsername c = (case c_username c of None \<Rightarrow> ([], False) | Some n \<Rightarrow> (n, True))"

definition GetRoom :: "Client \<Rightarrow> string option" where
  "GetRoom c = c_room c"

definition JoinRoom :: "Client \<Rightarrow> string \<Rightarrow> Client" where
  "JoinRoom c roomName = c\<lparr>c_room := Some roomName\<rparr>"

text \<open>
  Modelled from the spec: the package \<open>playback\<close> is not among the sources. A playback
  state has an optional loaded stream, a position, a play flag and its tick callbacks; a
  fresh one is empty, paused and at position zero. The status is a snapshot of these
  fields, so asking the nil playback that comes back for an unknown room is a nil
  dereference.
\<close>

datatype Stream = Stream (GetStreamURL: string) (GetInfo: string)

text \<open>
  The closure that \<open>RegisterClient\<close> hands to \<open>OnTick\<close> captures the client it created
  (whose id is that of the connection) and the room name.
\<close>

datatype TickCallback = ResyncTick string string

record StreamPlayback =
  p_stream :: "Stream option"
  p_time :: int
  p_playing :: bool
  p_onTick :: "TickCallback list"

datatype Status = Status "Stream option" int bool

definition NewStreamPlayback :: StreamPlayback where
  "NewStreamPlayback = \<lparr>p_stream = None, p_time = 0, p_playing = False, p_onTick = []\<rparr>"

definition GetStream :: "StreamPlayback \<Rightarrow> Stream option" where
  "GetStream p = p_stream p"

definition OnTick :: "StreamPlayback \<Rightarrow> TickCallback \<Rightarrow> StreamPlayback" where
  "OnTick p cb = p\<lparr>p_onTick := p_onTick p @ [cb]\<rparr>"

definition GetStatus :: "StreamPlayback option \<Rightarrow> Status go" where
  "GetStatus sPlayback =
     (case sPlayback of
        None \<Rightarrow> Panic
      | Some p \<Rightarrow> Return (Status (p_stream p) (p_time p) (p_playing p)))"

text \<open>\<open>client.Response\<close> with the fields the handlers fill in.\<close>

datatype extra = NoExtra | StatusExtra Status | InfoExtra string | RenameExtra string string

record Response =
  r_id :: string
  r_from :: string
  r_extra :: extra
  r_isSystem :: bool

definition emptyResponse :: Response where
  "emptyResponse = \<lparr>r_id = [], r_from = [], r_extra = NoExtra, r_isSystem = False\<rparr>"

datatype payload = Resp Response | ResponseFromClientData data

datatype sysmsg = ErrorText error | ResultText string

text \<open>
  What a handler does to the outside is the list of broadcast calls it makes, in order,
  each on the client with the given id.
\<close>

datatype emit =
    BroadcastTo string string payload
  | BroadcastFrom string string payload
  | BroadcastAll string string payload
  | BroadcastSystemMessageTo string sysmsg
  | BroadcastErrorTo string error

text \<open>
  The handler's collaborators: the registry's clients (\<open>clientHandler\<close>) and the
  playback state of each room (\<open>PlaybackHandler\<close>).
\<close>

record Handler =
  clients :: "Client list"
  playbacks :: "string \<rightharpoonup> StreamPlayback"

record Conn =
  conn_id :: string
  conn_url :: string

text \<open>
  Modelled from the spec: the registry's \<open>GetClient\<close> (\<open>get(connectionId) -> Client |
  NotFound\<close>), \<open>GetClients\<close> and \<open>CreateClient\<close> are not among the sources.
\<close>

definition GetClient :: "Handler \<Rightarrow> string \<Rightarrow> error + Client" where
  "GetClient h connId =
     (case find (\<lambda>c. c_id c = connId) (clients h) of
        None \<Rightarrow> Inl (ClientNotFound connId)
      | Some c \<Rightarrow> Inr c)"

definition GetClients :: "Handler \<Rightarrow> Client list" where
  "GetClients h = clients h"

definition GetStreamPlayback :: "Handler \<Rightarrow> string \<Rightarrow> StreamPlayback option" where
  "GetStreamPlayback h roomName = playbacks h roomName"

text \<open>A client object is shared with the registry: a change to it is seen there.\<close>

definition storeClient :: "Client \<Rightarrow> Handler \<Rightarrow> Handler" where
  "storeClient c h =
     h\<lparr>clients := map (\<lambda>x. if c_id x = c_id c then c else x) (clients h)\<rparr>"

text \<open>
  Modelled from the spec: the Broadcast Router of the package \<open>client\<close> is not among the
  sources. To-one calls reach that client; a room call reaches the registered clients
  whose room is the sender's, the sender left out for \<open>BroadcastFrom\<close>, nobody when the
  sender has no room.
\<close>

definition roomOf :: "Client list \<Rightarrow> string \<Rightarrow> string option" where
  "roomOf cs connId =
     (case find (\<lambda>c. c_id c = connId) cs of None \<Rightarrow> None | Some c \<Rightarrow> c_room c)"

definition inRoom :: "Client list \<Rightarrow> string \<Rightarrow> string list" where
  "inRoom cs roomName = map c_id (filter (\<lambda>c. c_room c = Some roomName) cs)"

fun receivers :: "Client list \<Rightarrow> emit \<Rightarrow> string list" where
  "receivers cs (BroadcastTo c ev p) = [c]"
| "receivers cs (BroadcastSystemMessageTo c m) = [c]"
| "receivers cs (BroadcastErrorTo c e) = [c]"
| "receivers cs (BroadcastAll c ev p) =
     (case roomOf cs c of None \<Rightarrow> [] | Some r \<Rightarrow> inRoom cs r)"
| "receivers cs (BroadcastFrom c ev p) =
     (case roomOf cs c of None \<Rightarrow> [] | Some r \<Rightarrow> filter (\<lambda>x. x \<noteq> c) (inRoom cs r))"

section \<open>handler.go\<close>

text \<open>
  Each callback of \<open>HandleClientConnection\<close> is a function of the collaborators' state
  that returns the broadcast calls it makes, and the state where it changes it. Log
  lines are left out.
\<close>

definition ROOM_DEFAULT_LOBBY :: string where
  "ROOM_DEFAULT_LOBBY = ''lobby''"

definition ROOM_DEFAULT_STREAMSYNC_RATE :: int where
  "ROOM_DEFAULT_STREAMSYNC_RATE = 30"

definition ROOM_URL_SEGMENT :: string where
  "ROOM_URL_SEGMENT = ''/v/''"

text \<open>
  \<open>ParseCommandMessage\<close> returns (error, command, isCommand). Its client argument is not
  used. \<open>command[0]\<close> on the empty string is an index out of range.
\<close>

definition ParseCommandMessage :: "data \<Rightarrow> (error option \<times> string \<times> bool) go" where
  "ParseCommandMessage d =
     (case d ''message'' of
        None \<Rightarrow> Return (Some MessageFieldEmpty, [], False)
      | Some message \<Rightarrow>
          (case message of
             VOther \<Rightarrow> Return (Some MessageNotAString, [], False)
           | VString command \<Rightarrow>
               (case command of
                  [] \<Rightarrow> Panic
                | c0 # rest \<Rightarrow>
                    if [c0] \<noteq> ''/'' then Return (None, [], False)
                    else Return (None, rest, True))))"

text \<open>
  The command name and arguments the chat handler hands to \<open>ExecuteCommand\<close>:
  \<open>cmdSegments[0]\<close> and, when there is more than one segment, \<open>cmdSegments[1:]\<close>.
\<close>

definition commandCall :: "string \<Rightarrow> (string \<times> string list) go" where
  "commandCall command =
     (let cmdSegments = Split command '' '';
          cmdArgs = (if length cmdSegments > 1 then tl cmdSegments else [])
      in case cmdSegments of
           [] \<Rightarrow> Panic
         | name # _ \<Rightarrow> Return (name, cmdArgs))"

text \<open>
  \<open>ExecuteCommand\<close> belongs to the package \<open>cmd\<close>, which is not among the sources: it is a
  parameter. It is handed the client and the collaborators, so besides the command's
  error or result text it gives the collaborators as the command left them and the
  broadcast calls the command made on the way.
\<close>

type_synonym executor =
  "string \<Rightarrow> string list \<Rightarrow> Client \<Rightarrow> Handler \<Rightarrow> (error + string) \<times> Handler \<times> emit list"

text \<open>
  The callback of \<open>request_chatmessage\<close>. The calls of a command come before the system
  message that reports its outcome.
\<close>

definition request_chatmessage ::
    "executor \<Rightarrow> Conn \<Rightarrow> data \<Rightarrow> Handler \<Rightarrow> (Handler \<times> emit list) go" where
  "request_chatmessage ExecuteCommand conn d h =
     (case GetClient h (conn_id conn) of
        Inl err \<Rightarrow> Return (h, [])
      | Inr c \<Rightarrow>
          (case ParseCommandMessage d of
             Panic \<Rightarrow> Panic
           | Return (err, command, isCommand) \<Rightarrow>
               (case err of
                  Some e \<Rightarrow> Return (h, [BroadcastSystemMessageTo (c_id c) (ErrorText e)])
                | None \<Rightarrow>
                    if isCommand then
                      (case commandCall command of
                         Panic \<Rightarrow> Panic
                       | Return (name, cmdArgs) \<Rightarrow>
                           (case ExecuteCommand name cmdArgs c h of
                              (Inl e, h', evs) \<Rightarrow>
                                Return (h',
                                  evs @ [BroadcastSystemMessageTo (c_id c) (ErrorText e)])
                            | (Inr result, h', evs) \<Rightarrow>
                                Return (h',
                                  evs @
                                  (if length result > 0
                                   then [BroadcastSystemMessageTo (c_id c) (ResultText result)]
                                   else []))))
                    else Return (h, [BroadcastAll (c_id c) ''chatmessage''
                                       (ResponseFromClientData d)]))))"

text \<open>
  The callback of \<open>request_streamsync\<close>. The branch for a room without playback state is
  empty in the source, so the status is asked of the nil playback.
\<close>

definition request_streamsync :: "Conn \<Rightarrow> Handler \<Rightarrow> emit list go" where
  "request_streamsync conn h =
     (case GetClient h (conn_id conn) of
        Inl err \<Rightarrow> Return []
      | Inr c \<Rightarrow>
          (case GetRoom c of
             None \<Rightarrow> Return []
           | Some roomName \<Rightarrow>
               (case GetStatus (GetStreamPlayback h roomName) of
                  Panic \<Rightarrow> Panic
                | Return st \<Rightarrow>
                    Return [BroadcastTo (c_id c) ''streamsync''
                              (Resp (emptyResponse\<lparr>r_id := GetId c,
                                                    r_extra := StatusExtra st\<rparr>))])))"

text \<open>
  The tick callback that \<open>RegisterClient\<close> registers. Go's \<open>%\<close> truncates towards zero
  (\<open>smod\<close>). A missing playback is logged and its status asked all the same.
\<close>

fun onTick :: "Handler \<Rightarrow> TickCallback \<Rightarrow> int \<Rightarrow> emit list go" where
  "onTick h (ResyncTick connId roomName) currentTime =
     (if currentTime smod ROOM_DEFAULT_STREAMSYNC_RATE \<noteq> 0 then Return []
      else
        (case GetStatus (GetStreamPlayback h roomName) of
           Panic \<Rightarrow> Panic
         | Return st \<Rightarrow>
             Return [BroadcastAll connId ''streamsync''
                       (Resp (emptyResponse\<lparr>r_id := connId,
                                             r_extra := StatusExtra st\<rparr>))]))"

section \<open>util\<close>

definition GetRoomNameFromRequest :: "string \<Rightarrow> error + string" where
  "GetRoomNameFromRequest url =
     (let segs = Split url ROOM_URL_SEGMENT
      in if length segs > 1 then Inr (segs ! 1) else Inl UnsupportedRoomSegment)"

text \<open>
  \<open>validation.ValidateClientUsername\<close> and the client's own \<open>UpdateUsername\<close> are not
  among the sources: both are parameters giving the error they return for a name, if
  any. When \<open>UpdateUsername\<close> returns no error the client holds the new name.
\<close>

type_synonym validator = "string \<Rightarrow> error option"

text \<open>The loop over \<open>clientHandler.GetClients()\<close>.\<close>

fun usernameTaken :: "string \<Rightarrow> Client list \<Rightarrow> bool" where
  "usernameTaken username [] = False"
| "usernameTaken username (otherUser # rest) =
     (case GetUsername otherUser of
        (otherUserName, hasName) \<Rightarrow>
          if \<not> hasName then usernameTaken username rest
          else if username = otherUserName then True
          else usernameTaken username rest)"

definition UpdateClientUsername ::
    "validator \<Rightarrow> validator \<Rightarrow> Client \<Rightarrow> string \<Rightarrow> Handler \<Rightarrow>
       (error + Client) \<times> emit list" where
  "UpdateClientUsername ValidateClientUsername UpdateUsername c username clientHandler =
     (case ValidateClientUsername username of
        Some err \<Rightarrow> (Inl err, [])
      | None \<Rightarrow>
          (case GetUsername c of
             (prevName, hasPrevName) \<Rightarrow>
               if hasPrevName \<and> prevName = username then (Inl AlreadyHaveUsername, [])
               else if usernameTaken username (GetClients clientHandler)
               then (Inl (UsernameTaken username), [])
               else
                 (case UpdateUsername username of
                    Some err \<Rightarrow> (Inl err, [])
                  | None \<Rightarrow>
                      (Inr (c\<lparr>c_username := Some username\<rparr>),
                       [BroadcastTo (c_id c) ''updateusername''
                          (Resp (emptyResponse\<lparr>r_from := username\<rparr>)),
                        BroadcastFrom (c_id c) ''info_updateusername''
                          (Resp \<lparr>r_id = c_id c, r_from = username,
                                 r_extra = RenameExtra prevName
                                   (if \<not> hasPrevName then ''true'' else []),
                                 r_isSystem = True\<rparr>)]))))"

text \<open>
  The callback of \<open>request_updateusername\<close>. When the client is not found the source
  broadcasts on the client that came back with the error, the nil client. The handler
  also passes its playback handler to \<open>UpdateClientUsername\<close>, an argument the function
  in the sources does not take and that plays no part here.
\<close>

definition request_updateusername ::
    "validator \<Rightarrow> validator \<Rightarrow> Conn \<Rightarrow> (string \<rightharpoonup> string) \<Rightarrow> Handler \<Rightarrow>
       (Handler \<times> emit list) go" where
  "request_updateusername ValidateClientUsername UpdateUsername conn d h =
     (case d ''user'' of
        None \<Rightarrow> Return (h, [])
      | Some username \<Rightarrow>
          (case GetClient h (conn_id conn) of
             Inl err \<Rightarrow> Panic
           | Inr c \<Rightarrow>
               (case UpdateClientUsername ValidateClientUsername UpdateUsername c username h of
                  (Inl err, evs) \<Rightarrow> Return (h, evs @ [BroadcastErrorTo (c_id c) err])
                | (Inr c', evs) \<Rightarrow> Return (storeClient c' h, evs))))"

section \<open>RegisterClient\<close>

definition RegisterClient :: "Conn \<Rightarrow> Handler \<Rightarrow> Handler \<times> emit list" where
  "RegisterClient sockioconn h =
     (let roomName = (case GetRoomNameFromRequest (conn_url sockioconn) of
                        Inl err \<Rightarrow> ROOM_DEFAULT_LOBBY
                      | Inr r \<Rightarrow> r);
          c = JoinRoom (NewClient (conn_id sockioconn)) roomName;
          h1 = h\<lparr>clients := clients h @ [c]\<rparr>;
          joined = BroadcastFrom (c_id c) ''info_clientjoined''
                     (Resp (emptyResponse\<lparr>r_id := GetId c\<rparr>))
      in case GetStreamPlayback h1 roomName of
           None \<Rightarrow>
             (h1\<lparr>playbacks := (playbacks h1)(roomName \<mapsto>
                     OnTick NewStreamPlayback (ResyncTick (conn_id sockioconn) roomName))\<rparr>,
              [joined])
         | Some sPlayback \<Rightarrow>
             (case GetStream sPlayback of
                None \<Rightarrow> (h1, [joined])
              | Some pStream \<Rightarrow>
                  (h1, [joined,
                        BroadcastTo (c_id c) ''streamload''
                          (Resp (emptyResponse\<lparr>r_id := GetId c,
                                                r_extra := InfoExtra (GetInfo pStream)\<rparr>))])))"

text \<open>Connections arriving one after the other, each registered in turn.\<close>

fun registerAll :: "Conn list \<Rightarrow> Handler \<Rightarrow> Handler" where
  "registerAll [] h = h"
| "registerAll (conn # conns) h = registerAll conns (fst (RegisterClient conn h))"

definition roomOfConn :: "Conn \<Rightarrow> string" where
  "roomOfConn conn =
     (case GetRoomNameFromRequest (conn_url conn) of
        Inl err \<Rightarrow> ROOM_DEFAULT_LOBBY
      | Inr r \<Rightarrow> r)"

section \<open>Example states\<close>

text \<open>
  Two clients in room \<open>x\<close>, one of them named, with a fresh playback state; the same room
  with a stream loaded; connections to room \<open>x\<close> and one outside any room; a dispatcher
  that fails every command, and two username policies.
\<close>

definition clientA :: Client where
  "clientA = \<lparr>c_id = ''a'', c_username = Some ''ann'', c_room = Some ''x''\<rparr>"

definition clientB :: Client where
  "clientB = \<lparr>c_id = ''b'', c_username = None, c_room = Some ''x''\<rparr>"

definition connA :: Conn where
  "connA = \<lparr>conn_id = ''a'', conn_url = ''http://host/v/x''\<rparr>"

definition connB :: Conn where
  "connB = \<lparr>conn_id = ''b'', conn_url = ''http://host/v/x''\<rparr>"

definition connC :: Conn where
  "connC = \<lparr>conn_id = ''c'', conn_url = ''http://host/v/x''\<rparr>"

definition connD :: Conn where
  "connD = \<lparr>conn_id = ''d'', conn_url = ''http://host/socket.io/''\<rparr>"

definition roomX :: Handler where
  "roomX = \<lparr>clients = [clientA, clientB], playbacks = [''x'' \<mapsto> NewStreamPlayback]\<rparr>"

definition loaded :: Handler where
  "loaded = roomX\<lparr>playbacks := [''x'' \<mapsto> NewStreamPlayback\<lparr>p_stream := Some (Stream ''u'' ''info'')\<rparr>]\<rparr>"

definition noStream :: executor where
  "noStream name args c h = (Inl (Rejected ''no active stream''), h, [])"

definition playForAll :: executor where
  "playForAll name args c h =
     (Inr ''playing'', h, [BroadcastAll (c_id c) ''streamplay'' (Resp emptyResponse)])"

definition acceptAll :: validator where
  "acceptAll n = None"

definition nonEmpty :: validator where
  "nonEmpty n = (if n = [] then Some (Rejected ''a username must not be empty'') else None)"

section \<open>Properties of \<open>strings.Split\<close>\<close>

text \<open>
  A split never yields the empty list, joining its segments with the separator gives
  the string back, and for a one-byte separator no segment holds that byte. A string
  without the separator is its own single segment; otherwise the first segment ends
  where the separator first occurs.
\<close>

lemma splitOn_not_Nil: "splitOn sep acc s \<noteq> []"
  by (induction sep acc s rule: splitOn.induct) auto

lemma Join_Cons: "ys \<noteq> [] \<Longrightarrow> Join (x # ys) sep = x @ sep @ Join ys sep"
  by (cases ys) auto

lemma Join_splitOn: "sep \<noteq> [] \<Longrightarrow> Join (splitOn sep acc s) sep = acc @ s"
proof (induction sep acc s rule: splitOn.induct)
  case (1 sep acc)
  then show ?case by simp
next
  case (2 sep acc c cs)
  show ?case
  proof (cases "take (length sep) (c # cs) = sep")
    case True
    have "Join (splitOn sep acc (c # cs)) sep
            = acc @ sep @ Join (splitOn sep [] (drop (length sep) (c # cs))) sep"
      using True "2.prems" by (simp add: Join_Cons splitOn_not_Nil)
    also have "\<dots> = acc @ sep @ drop (length sep) (c # cs)"
      using "2.IH"(1) True "2.prems" by simp
    also have "\<dots> = acc @ take (length sep) (c # cs) @ drop (length sep) (c # cs)"
      using True by simp
    finally show ?thesis by (simp only: append_take_drop_id)
  next
    case False
    then show ?thesis using "2.IH"(2) "2.prems" by simp
  qed
qed

lemma splitOn_char_free:
  "d \<notin> set acc \<Longrightarrow> tok \<in> set (splitOn [d] acc s) \<Longrightarrow> d \<notin> set tok"
proof (induction "[d]" acc s arbitrary: tok rule: splitOn.induct)
  case (1 acc)
  then show ?case by simp
next
  case (2 acc c cs)
  then show ?case by (auto split: if_splits)
qed

lemma splitOn_absent:
  "sep \<noteq> [] \<Longrightarrow> \<not> Contains s sep \<Longrightarrow> splitOn sep acc s = [acc @ s]"
  by (induction s arbitrary: acc) auto

lemma splitOn_first:
  "sep \<noteq> [] \<Longrightarrow> \<not> Contains (p @ butlast sep) sep \<Longrightarrow>
     splitOn sep acc (p @ sep @ r) = (acc @ p) # splitOn sep [] r"
proof (induction p arbitrary: acc)
  case Nil
  then obtain a sep' where sep: "sep = a # sep'" by (cases sep) auto
  show ?case unfolding sep by simp
next
  case (Cons x p)
  obtain b l where sep: "sep = b @ [l]"
    using Cons.prems(1) by (cases sep rule: rev_cases) auto
  have absent: "\<not> Contains (x # p @ b) sep"
    using Cons.prems(2) sep by simp
  have "take (length sep) ((x # p @ b) @ (l # r)) = take (length sep) (x # p @ b)"
    by (simp only: take_append) (simp add: sep)
  moreover have "x # p @ sep @ r = (x # p @ b) @ (l # r)"
    by (simp add: sep)
  moreover have "take (length sep) (x # p @ b) \<noteq> sep" and rest: "\<not> Contains (p @ b) sep"
    using absent by auto
  ultimately have "take (length sep) (x # p @ sep @ r) \<noteq> sep" by simp
  then have "splitOn sep acc ((x # p) @ sep @ r) = splitOn sep (acc @ [x]) (p @ sep @ r)"
    by simp
  moreover have "\<not> Contains (p @ butlast sep) sep" using rest sep by simp
  ultimately show ?case using Cons.IH [OF Cons.prems(1)] by simp
qed

lemma Contains_iff: "Contains s sep \<longleftrightarrow> (\<exists>p r. s = p @ sep @ r)"
proof (induction s)
  case Nil
  then show ?case by auto
next
  case (Cons c cs)
  show ?case
  proof
    assume "Contains (c # cs) sep"
    then consider "take (length sep) (c # cs) = sep" | "Contains cs sep" by auto
    then show "\<exists>p r. c # cs = p @ sep @ r"
    proof cases
      case 1
      then have "c # cs = [] @ sep @ drop (length sep) (c # cs)"
        by (metis append_Nil append_take_drop_id)
      then show ?thesis by blast
    next
      case 2
      then obtain p r where "cs = p @ sep @ r" using Cons.IH by blast
      then have "c # cs = (c # p) @ sep @ r" by simp
      then show ?thesis by blast
    qed
  next
    assume "\<exists>p r. c # cs = p @ sep @ r"
    then obtain p r where pr: "c # cs = p @ sep @ r" by blast
    show "Contains (c # cs) sep"
    proof (cases p)
      case Nil
      then have "take (length sep) (c # cs) = sep" using pr by simp
      then show ?thesis by simp
    next
      case (Cons a p')
      then have "cs = p' @ sep @ r" using pr by simp
      then have "Contains cs sep" using Cons.IH by blast
      then show ?thesis by simp
    qed
  qed
qed

lemma smod_30: "((t::int) smod 30 = 0) = (t mod 30 = 0)"
  by (auto simp add: smod_int_alt_def sgn_if zmod_zminus1_eq_if split: if_splits)

lemma commandCall_Split:
  "commandCall t = Return (hd (Split t '' ''), tl (Split t '' ''))"
proof -
  obtain name rest where s: "Split t '' '' = name # rest"
    using splitOn_not_Nil [of "'' ''" "[]" t] by (cases "Split t '' ''") (auto simp: Split_def)
  show ?thesis by (cases rest) (simp_all add: commandCall_def s)
qed

section \<open>Command detection\<close>

text \<open>
  C10. \<open>ParseCommandMessage\<close> reads \<open>command[0]\<close> without a guard: on a payload whose
  message is the empty string it panics instead of returning a result.
\<close>

theorem ParseCommandMessage_empty_message:
  "ParseCommandMessage [''message'' \<mapsto> VString ''''] = Panic"
  by (simp add: ParseCommandMessage_def)

text \<open>
  C1, as stated, fails: for the message \<open>"/"\<close> the parse returns no error and a command
  with the empty text, which the handler passes on as the empty command name with no
  arguments; and the text is cut at single spaces, so two spaces in a row give an empty
  argument.
\<close>

theorem detect_slash_counterexample:
  "ParseCommandMessage [''message'' \<mapsto> VString ''/''] = Return (None, '''', True)
   \<and> commandCall '''' = Return ('''', [])
   \<and> commandCall ''seek  10'' = Return (''seek'', ['''', ''10''])"
  by (simp add: ParseCommandMessage_def commandCall_def Split_def)

text \<open>
  C1, amended. A non-empty message is a command if and only if its first byte is \<open>/\<close>,
  and the command text is what follows the marker. The handler cuts that text at every
  single space: the first segment is the command name, the remaining segments are the
  arguments; joined with single spaces they give the text back, and no segment holds a
  space. So \<open>"/play"\<close> is the command \<open>play\<close> without arguments, \<open>"hello there"\<close> is not a
  command, and \<open>"/"\<close> is a command with the empty name and no arguments.
\<close>

theorem detect_command:
  "d ''message'' = Some (VString m) \<and> m \<noteq> [] \<longrightarrow>
     ParseCommandMessage d =
       Return (None, if hd m = CHR ''/'' then tl m else [], hd m = CHR ''/'')
     \<and> (\<exists>name args.
           commandCall (tl m) = Return (name, args)
           \<and> name # args = Split (tl m) '' ''
           \<and> Join (name # args) '' '' = tl m
           \<and> (\<forall>tok \<in> set (name # args). CHR '' '' \<notin> set tok))"
proof (intro impI conjI)
  assume a: "d ''message'' = Some (VString m) \<and> m \<noteq> []"
  then obtain c0 rest where m: "m = c0 # rest" by (cases m) auto
  show "ParseCommandMessage d =
       Return (None, if hd m = CHR ''/'' then tl m else [], hd m = CHR ''/'')"
    using a by (simp add: ParseCommandMessage_def m)
  let ?segs = "Split (tl m) '' ''"
  have ne: "?segs \<noteq> []" by (simp add: Split_def splitOn_not_Nil)
  have 1: "commandCall (tl m) = Return (hd ?segs, tl ?segs)" by (rule commandCall_Split)
  have 2: "hd ?segs # tl ?segs = ?segs" using ne by simp
  have 3: "Join ?segs '' '' = tl m" by (simp add: Split_def Join_splitOn)
  have 4: "\<forall>tok \<in> set ?segs. CHR '' '' \<notin> set tok"
    using splitOn_char_free [of "CHR '' ''" "[]" _ "tl m"] by (auto simp: Split_def)
  show "\<exists>name args.
           commandCall (tl m) = Return (name, args)
           \<and> name # args = Split (tl m) '' ''
           \<and> Join (name # args) '' '' = tl m
           \<and> (\<forall>tok \<in> set (name # args). CHR '' '' \<notin> set tok)"
    using 1 2 3 4 by (metis (no_types))
qed

theorem detect_command_witness:
  "ParseCommandMessage [''message'' \<mapsto> VString ''/play''] = Return (None, ''play'', True)
   \<and> commandCall ''play'' = Return (''play'', [])
   \<and> ParseCommandMessage [''message'' \<mapsto> VString ''hello there''] = Return (None, '''', False)"
  using detect_command [of "[''message'' \<mapsto> VString ''/play'']" "''/play''"]
    detect_command [of "[''message'' \<mapsto> VString ''hello there'']" "''hello there''"]
  by (simp add: commandCall_def Split_def)

lemma GetClient_Inr:
  "GetClient h connId = Inr c \<Longrightarrow> c_id c = connId \<and> c \<in> set (clients h)"
  by (auto simp: GetClient_def find_Some_iff split: option.splits)

lemma roomOf_GetClient:
  "GetClient h connId = Inr c \<Longrightarrow> roomOf (clients h) connId = c_room c"
  by (auto simp: GetClient_def roomOf_def split: option.splits)

section \<open>Chat messages\<close>

text \<open>
  C7, as stated, fails: a command is handed the client and may broadcast through it. For
  a command that announces itself to the room, the chat message \<open>"/play"\<close> of client \<open>a\<close>
  makes an event reach client \<open>b\<close> as well.
\<close>

theorem request_chatmessage_counterexample:
  "request_chatmessage playForAll connA [''message'' \<mapsto> VString ''/play''] roomX =
     Return (roomX, [BroadcastAll ''a'' ''streamplay'' (Resp emptyResponse),
                     BroadcastSystemMessageTo ''a'' (ResultText ''playing'')])
   \<and> receivers (clients roomX) (BroadcastAll ''a'' ''streamplay'' (Resp emptyResponse)) =
       [''a'', ''b'']"
  by (simp add: request_chatmessage_def GetClient_def roomX_def clientA_def clientB_def
        connA_def ParseCommandMessage_def playForAll_def commandCall_def Split_def
        roomOf_def inRoom_def)

text \<open>
  C7, amended. A chat message from a registered client. If it parses as a command, the
  command is executed with the name and arguments cut from its text; the calls made are
  those the command itself made through the handles it was given, followed by at most
  one call of the handler: the command's error, or its result when that is not empty,
  as a system message that reaches the sender alone. The handler does not broadcast the
  message, so when the command made no call every event reaches the sender alone. If
  the message parses as not a command, the payload is broadcast to the sender's whole
  room as a \<open>chatmessage\<close> event.
\<close>

theorem request_chatmessage_routing:
  "GetClient h (conn_id conn) = Inr c \<longrightarrow>
     (ParseCommandMessage d = Return (None, command, True) \<longrightarrow>
        (\<exists>name args res h' evs own.
            commandCall command = Return (name, args)
            \<and> ExecuteCommand name args c h = (res, h', evs)
            \<and> own = (case res of
                       Inl e \<Rightarrow> [BroadcastSystemMessageTo (conn_id conn) (ErrorText e)]
                     | Inr result \<Rightarrow>
                         if result = [] then []
                         else [BroadcastSystemMessageTo (conn_id conn) (ResultText result)])
            \<and> request_chatmessage ExecuteCommand conn d h = Return (h', evs @ own)
            \<and> (\<forall>cs. \<forall>e \<in> set own. receivers cs e = [conn_id conn])
            \<and> (evs = [] \<longrightarrow>
                 (\<forall>cs. \<forall>e \<in> set (evs @ own). receivers cs e = [conn_id conn]))))
     \<and> (ParseCommandMessage d = Return (None, command, False) \<longrightarrow>
          request_chatmessage ExecuteCommand conn d h =
            Return (h, [BroadcastAll (conn_id conn) ''chatmessage'' (ResponseFromClientData d)])
          \<and> receivers (clients h)
               (BroadcastAll (conn_id conn) ''chatmessage'' (ResponseFromClientData d)) =
             (case c_room c of None \<Rightarrow> [] | Some r \<Rightarrow> inRoom (clients h) r))"
proof (intro impI conjI)
  assume c: "GetClient h (conn_id conn) = Inr c"
  then have id: "c_id c = conn_id conn" using GetClient_Inr by blast
  {
    assume p: "ParseCommandMessage d = Return (None, command, True)"
    obtain name args where call: "commandCall command = Return (name, args)"
      by (simp add: commandCall_Split)
    obtain res h' evs where ex: "ExecuteCommand name args c h = (res, h', evs)"
      by (cases "ExecuteCommand name args c h") auto
    define own where "own = (case res of
                       Inl e \<Rightarrow> [BroadcastSystemMessageTo (conn_id conn) (ErrorText e)]
                     | Inr result \<Rightarrow>
                         if result = [] then []
                         else [BroadcastSystemMessageTo (conn_id conn) (ResultText result)])"
    have run: "request_chatmessage ExecuteCommand conn d h = Return (h', evs @ own)"
      by (cases res) (simp_all add: request_chatmessage_def c p call ex id own_def)
    have to_sender: "\<forall>cs. \<forall>e \<in> set own. receivers cs e = [conn_id conn]"
      unfolding own_def by (cases res) auto
    then have quiet: "evs = [] \<longrightarrow>
                 (\<forall>cs. \<forall>e \<in> set (evs @ own). receivers cs e = [conn_id conn])"
      by simp
    show "\<exists>name args res h' evs own.
            commandCall command = Return (name, args)
            \<and> ExecuteCommand name args c h = (res, h', evs)
            \<and> own = (case res of
                       Inl e \<Rightarrow> [BroadcastSystemMessageTo (conn_id conn) (ErrorText e)]
                     | Inr result \<Rightarrow>
                         if result = [] then []
                         else [BroadcastSystemMessageTo (conn_id conn) (ResultText result)])
            \<and> request_chatmessage ExecuteCommand conn d h = Return (h', evs @ own)
            \<and> (\<forall>cs. \<forall>e \<in> set own. receivers cs e = [conn_id conn])
            \<and> (evs = [] \<longrightarrow>
                 (\<forall>cs. \<forall>e \<in> set (evs @ own). receivers cs e = [conn_id conn]))"
      using call ex run to_sender quiet own_def by blast
  }
  {
    assume p: "ParseCommandMessage d = Return (None, command, False)"
    show "request_chatmessage ExecuteCommand conn d h =
            Return (h, [BroadcastAll (conn_id conn) ''chatmessage'' (ResponseFromClientData d)])"
      by (simp add: request_chatmessage_def c p id)
    show "receivers (clients h)
               (BroadcastAll (conn_id conn) ''chatmessage'' (ResponseFromClientData d)) =
             (case c_room c of None \<Rightarrow> [] | Some r \<Rightarrow> inRoom (clients h) r)"
      by (simp add: roomOf_GetClient [OF c])
  }
qed

theorem request_chatmessage_routing_witness:
  "GetClient roomX (conn_id connA) = Inr clientA
   \<and> ParseCommandMessage [''message'' \<mapsto> VString ''/pause''] = Return (None, ''pause'', True)
   \<and> request_chatmessage noStream connA [''message'' \<mapsto> VString ''/pause''] roomX =
       Return (roomX, [BroadcastSystemMessageTo ''a'' (ErrorText (Rejected ''no active stream''))])
   \<and> ParseCommandMessage [''message'' \<mapsto> VString ''hello there''] = Return (None, '''', False)
   \<and> request_chatmessage noStream connA [''message'' \<mapsto> VString ''hello there''] roomX =
       Return (roomX, [BroadcastAll ''a'' ''chatmessage''
                         (ResponseFromClientData [''message'' \<mapsto> VString ''hello there''])])
   \<and> receivers (clients roomX)
         (BroadcastAll ''a'' ''chatmessage''
            (ResponseFromClientData [''message'' \<mapsto> VString ''hello there''])) = [''a'', ''b'']"
  using request_chatmessage_routing [of roomX connA clientA
          "[''message'' \<mapsto> VString ''/pause'']" "''pause''" noStream]
    request_chatmessage_routing [of roomX connA clientA
          "[''message'' \<mapsto> VString ''hello there'']" "''''" noStream]
  by (simp add: GetClient_def roomX_def clientA_def clientB_def connA_def
        ParseCommandMessage_def noStream_def commandCall_def Split_def inRoom_def)

section \<open>Resync\<close>

lemma request_streamsync_found:
  "GetClient h (conn_id conn) = Inr c \<Longrightarrow> c_room c = Some r \<Longrightarrow> playbacks h r = Some p \<Longrightarrow>
     request_streamsync conn h =
       Return [BroadcastTo (conn_id conn) ''streamsync''
                 (Resp \<lparr>r_id = conn_id conn, r_from = [],
                        r_extra = StatusExtra (Status (p_stream p) (p_time p) (p_playing p)),
                        r_isSystem = False\<rparr>)]"
  by (simp add: request_streamsync_def GetRoom_def GetStreamPlayback_def GetStatus_def
        emptyResponse_def GetId_def GetClient_Inr)

text \<open>
  C2. A resync request of a registered client whose room has playback state is answered
  with the status snapshot, sent to that client only (\<open>request_streamsync_found\<close>). For a
  room without playback state the source's branch is empty and the handler goes on to
  ask the nil playback for its status: it panics.
\<close>

theorem request_streamsync_missing_playback:
  "request_streamsync connA (roomX\<lparr>playbacks := Map.empty\<rparr>) = Panic"
  by (simp add: request_streamsync_def GetClient_def roomX_def clientA_def clientB_def
        connA_def GetRoom_def GetStreamPlayback_def GetStatus_def)

text \<open>
  C3. The tick callback broadcasts nothing on a tick whose position is not a multiple
  of 30, and on a tick whose position is a multiple of 30 it broadcasts exactly one
  \<open>streamsync\<close> event with the status snapshot of the room's playback state (the state
  whose ticks these are).
\<close>

theorem onTick_resync_cadence:
  "(t mod 30 \<noteq> 0 \<longrightarrow> onTick h (ResyncTick connId roomName) t = Return [])
   \<and> (t mod 30 = 0 \<and> playbacks h roomName = Some p \<longrightarrow>
        onTick h (ResyncTick connId roomName) t =
          Return [BroadcastAll connId ''streamsync''
                    (Resp \<lparr>r_id = connId, r_from = [],
                           r_extra = StatusExtra (Status (p_stream p) (p_time p) (p_playing p)),
                           r_isSystem = False\<rparr>)])"
  by (simp add: ROOM_DEFAULT_STREAMSYNC_RATE_def smod_30 GetStreamPlayback_def GetStatus_def
        emptyResponse_def)

theorem onTick_resync_cadence_witness:
  "onTick roomX (ResyncTick ''a'' ''x'') 29 = Return []
   \<and> onTick roomX (ResyncTick ''a'' ''x'') 31 = Return []
   \<and> playbacks roomX ''x'' = Some NewStreamPlayback
   \<and> onTick roomX (ResyncTick ''a'' ''x'') 60 =
       Return [BroadcastAll ''a'' ''streamsync''
                 (Resp \<lparr>r_id = ''a'', r_from = [],
                        r_extra = StatusExtra (Status None 0 False), r_isSystem = False\<rparr>)]"
  using onTick_resync_cadence [of 29 roomX "''a''" "''x''" NewStreamPlayback]
    onTick_resync_cadence [of 31 roomX "''a''" "''x''" NewStreamPlayback]
    onTick_resync_cadence [of 60 roomX "''a''" "''x''" NewStreamPlayback]
  by (simp add: roomX_def NewStreamPlayback_def)

section \<open>Usernames\<close>

lemma usernameTaken_iff:
  "usernameTaken n cs \<longleftrightarrow> (\<exists>other \<in> set cs. c_username other = Some n)"
  by (induction cs) (auto simp: GetUsername_def split: option.splits)

lemma GetUsername_same:
  "(snd (GetUsername c) \<and> fst (GetUsername c) = n) \<longleftrightarrow> c_username c = Some n"
  by (auto simp: GetUsername_def split: option.splits)

lemma UpdateClientUsername_eq:
  "UpdateClientUsername V S c n h =
     (case V n of
        Some e \<Rightarrow> (Inl e, [])
      | None \<Rightarrow>
          if c_username c = Some n then (Inl AlreadyHaveUsername, [])
          else if \<exists>other \<in> set (clients h). c_username other = Some n
          then (Inl (UsernameTaken n), [])
          else
            (case S n of
               Some e \<Rightarrow> (Inl e, [])
             | None \<Rightarrow>
                 (Inr (c\<lparr>c_username := Some n\<rparr>),
                  [BroadcastTo (c_id c) ''updateusername''
                     (Resp \<lparr>r_id = [], r_from = n, r_extra = NoExtra, r_isSystem = False\<rparr>),
                   BroadcastFrom (c_id c) ''info_updateusername''
                     (Resp \<lparr>r_id = c_id c, r_from = n,
                            r_extra = RenameExtra (fst (GetUsername c))
                              (if c_username c = None then ''true'' else []),
                            r_isSystem = True\<rparr>)])))"
  by (auto simp: UpdateClientUsername_def usernameTaken_iff GetClients_def GetUsername_def
        emptyResponse_def split: option.splits)

lemma GetClient_storeClient_same:
  "GetClient h connId = Inr c \<Longrightarrow> c_id c' = connId \<Longrightarrow>
     GetClient (storeClient c' h) connId = Inr c'"
proof -
  assume a: "GetClient h connId = Inr c" and b: "c_id c' = connId"
  have "find (\<lambda>x. c_id x = connId) (map (\<lambda>x. if c_id x = connId then c' else x) cs)
          = (case find (\<lambda>x. c_id x = connId) cs of None \<Rightarrow> None | Some _ \<Rightarrow> Some c')" for cs
    using b by (induction cs) auto
  then show ?thesis using a b
    by (auto simp: GetClient_def storeClient_def split: option.splits)
qed

lemma GetClient_storeClient_other:
  "c_id c' \<noteq> connId \<Longrightarrow> GetClient (storeClient c' h) connId = GetClient h connId"
proof -
  assume b: "c_id c' \<noteq> connId"
  have "find (\<lambda>x. c_id x = connId) (map (\<lambda>x. if c_id x = c_id c' then c' else x) cs)
          = find (\<lambda>x. c_id x = connId) cs" for cs
    using b by (induction cs) auto
  then show ?thesis by (simp add: GetClient_def storeClient_def)
qed

lemma storeClient_member:
  "c \<in> set (clients h) \<Longrightarrow> c_id c' = c_id c \<Longrightarrow> c' \<in> set (clients (storeClient c' h))"
  by (force simp: storeClient_def)

text \<open>
  C4. \<open>UpdateClientUsername\<close> returns the validation error for a malformed name, fails for
  the client's current name, fails with the taken error when a registered client holds
  the name, and otherwise (the client's own setter accepting the name) returns the
  client with the new name. After such a success, written through to the registry, the
  same name requested for a different registered client fails as taken, and the first
  client still holds the name.
\<close>

theorem UpdateClientUsername_outcomes:
  "(V n = Some e \<longrightarrow> UpdateClientUsername V S c n h = (Inl e, []))
   \<and> (V n = None \<and> c_username c = Some n \<longrightarrow>
        UpdateClientUsername V S c n h = (Inl AlreadyHaveUsername, []))
   \<and> (V n = None \<and> c_username c \<noteq> Some n
        \<and> (\<exists>other \<in> set (clients h). c_username other = Some n) \<longrightarrow>
        UpdateClientUsername V S c n h = (Inl (UsernameTaken n), []))
   \<and> (V n = None \<and> c_username c \<noteq> Some n
        \<and> (\<forall>other \<in> set (clients h). c_username other \<noteq> Some n) \<and> S n = None \<longrightarrow>
        fst (UpdateClientUsername V S c n h) = Inr (c\<lparr>c_username := Some n\<rparr>))
   \<and> (GetClient h id1 = Inr c1 \<and> GetClient h id2 = Inr c2 \<and> id1 \<noteq> id2
        \<and> fst (UpdateClientUsername V S c1 n h) = Inr c1' \<longrightarrow>
        GetClient (storeClient c1' h) id1 = Inr c1'
        \<and> c_username c1' = Some n
        \<and> GetClient (storeClient c1' h) id2 = Inr c2
        \<and> UpdateClientUsername V S c2 n (storeClient c1' h) = (Inl (UsernameTaken n), []))"
proof (intro conjI impI)
  assume a: "GetClient h id1 = Inr c1 \<and> GetClient h id2 = Inr c2 \<and> id1 \<noteq> id2
        \<and> fst (UpdateClientUsername V S c1 n h) = Inr c1'"
  then have ok: "fst (UpdateClientUsername V S c1 n h) = Inr c1'" by simp
  have v: "V n = None" and free: "\<forall>other \<in> set (clients h). c_username other \<noteq> Some n"
    and c1': "c1' = c1\<lparr>c_username := Some n\<rparr>"
    using ok by (auto simp: UpdateClientUsername_eq split: option.splits if_splits)
  have id1: "c_id c1 = id1" and in1: "c1 \<in> set (clients h)"
    and id2: "c_id c2 = id2" and in2: "c2 \<in> set (clients h)"
    using a by (auto dest: GetClient_Inr)
  show "GetClient (storeClient c1' h) id1 = Inr c1'"
    using a id1 c1' by (intro GetClient_storeClient_same [of h id1 c1]) auto
  show "c_username c1' = Some n" using c1' by simp
  show 2: "GetClient (storeClient c1' h) id2 = Inr c2"
    using a id1 c1' by (simp add: GetClient_storeClient_other)
  have "c2 \<noteq> c1'" "c_username c2 \<noteq> Some n" using free in2 id1 id2 a c1' by auto
  moreover have "c1' \<in> set (clients (storeClient c1' h))"
    using in1 c1' by (intro storeClient_member [of c1]) auto
  ultimately show "UpdateClientUsername V S c2 n (storeClient c1' h) = (Inl (UsernameTaken n), [])"
    using v c1' by (auto simp: UpdateClientUsername_eq)
qed (auto simp: UpdateClientUsername_eq)

theorem UpdateClientUsername_outcomes_witness:
  "nonEmpty '''' = Some (Rejected ''a username must not be empty'')
   \<and> UpdateClientUsername nonEmpty acceptAll clientB '''' roomX =
       (Inl (Rejected ''a username must not be empty''), [])
   \<and> UpdateClientUsername nonEmpty acceptAll clientA ''ann'' roomX = (Inl AlreadyHaveUsername, [])
   \<and> UpdateClientUsername nonEmpty acceptAll clientB ''ann'' roomX = (Inl (UsernameTaken ''ann''), [])
   \<and> fst (UpdateClientUsername nonEmpty acceptAll clientB ''bob'' roomX) =
       Inr (clientB\<lparr>c_username := Some ''bob''\<rparr>)
   \<and> GetClient roomX ''b'' = Inr clientB \<and> GetClient roomX ''a'' = Inr clientA
   \<and> UpdateClientUsername nonEmpty acceptAll clientA ''bob''
        (storeClient (clientB\<lparr>c_username := Some ''bob''\<rparr>) roomX) = (Inl (UsernameTaken ''bob''), [])
   \<and> GetClient (storeClient (clientB\<lparr>c_username := Some ''bob''\<rparr>) roomX) ''b'' =
        Inr (clientB\<lparr>c_username := Some ''bob''\<rparr>)"
  using UpdateClientUsername_outcomes [of nonEmpty "''''" "Rejected ''a username must not be empty''"
          acceptAll clientB roomX "''b''" clientB "''a''" clientA "clientB\<lparr>c_username := Some ''bob''\<rparr>"]
    UpdateClientUsername_outcomes [of nonEmpty "''ann''" _ acceptAll clientA roomX]
    UpdateClientUsername_outcomes [of nonEmpty "''ann''" _ acceptAll clientB roomX]
    UpdateClientUsername_outcomes [of nonEmpty "''bob''" _
          acceptAll clientB roomX "''b''" clientB "''a''" clientA "clientB\<lparr>c_username := Some ''bob''\<rparr>"]
  by (simp add: nonEmpty_def acceptAll_def roomX_def clientA_def clientB_def GetClient_def)

text \<open>
  C9. A username request of a registered client. On success the handler sends
  \<open>updateusername\<close> with the new name to the client itself and \<open>info_updateusername\<close>,
  with the client's id, the new name, the previous name and the new-user mark, to the
  other clients of its room; the mark is set exactly when there was no previous name.
  On failure the only call is the error, to the sender alone.
\<close>

theorem request_updateusername_events:
  "GetClient h (conn_id conn) = Inr c \<and> d ''user'' = Some n \<longrightarrow>
     (\<forall>c' evs. UpdateClientUsername V S c n h = (Inr c', evs) \<longrightarrow>
        request_updateusername V S conn d h =
          Return (storeClient c' h,
            [BroadcastTo (conn_id conn) ''updateusername''
               (Resp \<lparr>r_id = [], r_from = n, r_extra = NoExtra, r_isSystem = False\<rparr>),
             BroadcastFrom (conn_id conn) ''info_updateusername''
               (Resp \<lparr>r_id = conn_id conn, r_from = n,
                      r_extra = RenameExtra (case c_username c of None \<Rightarrow> [] | Some old \<Rightarrow> old)
                                  (if c_username c = None then ''true'' else []),
                      r_isSystem = True\<rparr>)])
        \<and> c_username c' = Some n
        \<and> receivers (clients h) (BroadcastTo (conn_id conn) ''updateusername''
               (Resp \<lparr>r_id = [], r_from = n, r_extra = NoExtra, r_isSystem = False\<rparr>))
            = [conn_id conn]
        \<and> (\<forall>p. receivers (clients h) (BroadcastFrom (conn_id conn) ''info_updateusername'' p)
            = (case c_room c of
                 None \<Rightarrow> []
               | Some r \<Rightarrow> filter (\<lambda>x. x \<noteq> conn_id conn) (inRoom (clients h) r))))
     \<and> (\<forall>e evs. UpdateClientUsername V S c n h = (Inl e, evs) \<longrightarrow>
          request_updateusername V S conn d h = Return (h, [BroadcastErrorTo (conn_id conn) e])
          \<and> receivers (clients h) (BroadcastErrorTo (conn_id conn) e) = [conn_id conn])"
proof (intro impI conjI allI)
  fix c' evs
  assume a: "GetClient h (conn_id conn) = Inr c \<and> d ''user'' = Some n"
    and ok: "UpdateClientUsername V S c n h = (Inr c', evs)"
  have id: "c_id c = conn_id conn" using a GetClient_Inr by blast
  have evs: "evs = [BroadcastTo (conn_id conn) ''updateusername''
               (Resp \<lparr>r_id = [], r_from = n, r_extra = NoExtra, r_isSystem = False\<rparr>),
             BroadcastFrom (conn_id conn) ''info_updateusername''
               (Resp \<lparr>r_id = conn_id conn, r_from = n,
                      r_extra = RenameExtra (case c_username c of None \<Rightarrow> [] | Some old \<Rightarrow> old)
                                  (if c_username c = None then ''true'' else []),
                      r_isSystem = True\<rparr>)]"
    and c': "c' = c\<lparr>c_username := Some n\<rparr>"
    using ok id
    by (auto simp: UpdateClientUsername_eq GetUsername_def split: option.splits if_splits)
  show "request_updateusername V S conn d h =
          Return (storeClient c' h,
            [BroadcastTo (conn_id conn) ''updateusername''
               (Resp \<lparr>r_id = [], r_from = n, r_extra = NoExtra, r_isSystem = False\<rparr>),
             BroadcastFrom (conn_id conn) ''info_updateusername''
               (Resp \<lparr>r_id = conn_id conn, r_from = n,
                      r_extra = RenameExtra (case c_username c of None \<Rightarrow> [] | Some old \<Rightarrow> old)
                                  (if c_username c = None then ''true'' else []),
                      r_isSystem = True\<rparr>)])"
    using a ok evs by (simp add: request_updateusername_def)
  show "c_username c' = Some n" using c' by simp
next
  fix p
  assume a: "GetClient h (conn_id conn) = Inr c \<and> d ''user'' = Some n"
  then show "receivers (clients h) (BroadcastFrom (conn_id conn) ''info_updateusername'' p)
            = (case c_room c of
                 None \<Rightarrow> []
               | Some r \<Rightarrow> filter (\<lambda>x. x \<noteq> conn_id conn) (inRoom (clients h) r))"
    by (simp add: roomOf_GetClient)
next
  fix e evs
  assume a: "GetClient h (conn_id conn) = Inr c \<and> d ''user'' = Some n"
    and bad: "UpdateClientUsername V S c n h = (Inl e, evs)"
  have id: "c_id c = conn_id conn" using a GetClient_Inr by blast
  have "evs = []"
    using bad by (auto simp: UpdateClientUsername_eq split: option.splits if_splits)
  then show "request_updateusername V S conn d h = Return (h, [BroadcastErrorTo (conn_id conn) e])"
    using a bad id by (simp add: request_updateusername_def)
qed simp_all

theorem request_updateusername_events_witness:
  "GetClient roomX (conn_id connB) = Inr clientB
   \<and> request_updateusername nonEmpty acceptAll connB [''user'' \<mapsto> ''bob''] roomX =
       Return (storeClient (clientB\<lparr>c_username := Some ''bob''\<rparr>) roomX,
         [BroadcastTo ''b'' ''updateusername''
            (Resp \<lparr>r_id = [], r_from = ''bob'', r_extra = NoExtra, r_isSystem = False\<rparr>),
          BroadcastFrom ''b'' ''info_updateusername''
            (Resp \<lparr>r_id = ''b'', r_from = ''bob'', r_extra = RenameExtra [] ''true'',
                   r_isSystem = True\<rparr>)])
   \<and> receivers (clients roomX) (BroadcastFrom ''b'' ''info_updateusername''
         (Resp \<lparr>r_id = ''b'', r_from = ''bob'', r_extra = RenameExtra [] ''true'',
                r_isSystem = True\<rparr>)) = [''a'']
   \<and> request_updateusername nonEmpty acceptAll connB [''user'' \<mapsto> ''ann''] roomX =
       Return (roomX, [BroadcastErrorTo ''b'' (UsernameTaken ''ann'')])"
  using request_updateusername_events [of roomX connB clientB "[''user'' \<mapsto> ''bob'']" "''bob''"
          nonEmpty acceptAll]
    request_updateusername_events [of roomX connB clientB "[''user'' \<mapsto> ''ann'']" "''ann''"
          nonEmpty acceptAll]
  by (simp add: UpdateClientUsername_eq nonEmpty_def acceptAll_def roomX_def clientA_def
        clientB_def connB_def GetClient_def inRoom_def GetUsername_def)

section \<open>Joining a room\<close>

lemma RegisterClient_room:
  "RegisterClient conn h =
     (let r = roomOfConn conn;
          c = \<lparr>c_id = conn_id conn, c_username = None, c_room = Some r\<rparr>;
          h1 = h\<lparr>clients := clients h @ [c]\<rparr>;
          joined = BroadcastFrom (conn_id conn) ''info_clientjoined''
                     (Resp \<lparr>r_id = conn_id conn, r_from = [], r_extra = NoExtra,
                            r_isSystem = False\<rparr>)
      in case playbacks h r of
           None \<Rightarrow>
             (h1\<lparr>playbacks := (playbacks h)(r \<mapsto>
                     NewStreamPlayback\<lparr>p_onTick := [ResyncTick (conn_id conn) r]\<rparr>)\<rparr>,
              [joined])
         | Some p \<Rightarrow>
             (h1, joined #
                (case p_stream p of
                   None \<Rightarrow> []
                 | Some s \<Rightarrow>
                     [BroadcastTo (conn_id conn) ''streamload''
                        (Resp \<lparr>r_id = conn_id conn, r_from = [],
                               r_extra = InfoExtra (GetInfo s), r_isSystem = False\<rparr>)])))"
  by (simp add: RegisterClient_def roomOfConn_def Let_def JoinRoom_def NewClient_def GetId_def
        GetStreamPlayback_def GetStream_def OnTick_def NewStreamPlayback_def emptyResponse_def
      split: option.splits sum.splits)

lemma RegisterClient_playbacks_kept:
  "playbacks h r = Some p \<Longrightarrow> playbacks (fst (RegisterClient conn h)) r = Some p"
  by (auto simp: RegisterClient_room Let_def split: option.splits)

lemma registerAll_playbacks_kept:
  "playbacks h r = Some p \<Longrightarrow> playbacks (registerAll conns h) r = Some p"
  by (induction conns arbitrary: h) (auto simp: RegisterClient_playbacks_kept)

lemma RegisterClient_first:
  "playbacks h (roomOfConn conn) = None \<Longrightarrow>
     playbacks (fst (RegisterClient conn h)) (roomOfConn conn) =
       Some (NewStreamPlayback\<lparr>p_onTick := [ResyncTick (conn_id conn) (roomOfConn conn)]\<rparr>)"
  by (simp add: RegisterClient_room Let_def)

text \<open>
  C5. When a connection registers into a room without playback state, then after it and
  any connections following it the room's playback state holds exactly one tick
  callback, the one of that first connection; and registering one more connection
  leaves that playback state as it is.
\<close>

theorem resync_callback_registered_once:
  "playbacks h (roomOfConn conn) = None \<longrightarrow>
     (\<exists>p. playbacks (registerAll (conn # conns) h) (roomOfConn conn) = Some p
          \<and> p_onTick p = [ResyncTick (conn_id conn) (roomOfConn conn)])
     \<and> (\<forall>later p. playbacks (registerAll (conn # conns) h) (roomOfConn conn) = Some p \<longrightarrow>
           playbacks (fst (RegisterClient later (registerAll (conn # conns) h))) (roomOfConn conn)
             = Some p)"
proof (intro impI conjI allI)
  assume a: "playbacks h (roomOfConn conn) = None"
  let ?p = "NewStreamPlayback\<lparr>p_onTick := [ResyncTick (conn_id conn) (roomOfConn conn)]\<rparr>"
  have "playbacks (registerAll (conn # conns) h) (roomOfConn conn) = Some ?p"
    using RegisterClient_first [OF a] by (simp add: registerAll_playbacks_kept)
  then show "\<exists>p. playbacks (registerAll (conn # conns) h) (roomOfConn conn) = Some p
          \<and> p_onTick p = [ResyncTick (conn_id conn) (roomOfConn conn)]"
    by simp
next
  fix later p
  assume "playbacks (registerAll (conn # conns) h) (roomOfConn conn) = Some p"
  then show "playbacks (fst (RegisterClient later (registerAll (conn # conns) h))) (roomOfConn conn)
             = Some p"
    by (rule RegisterClient_playbacks_kept)
qed

theorem resync_callback_registered_once_witness:
  "playbacks \<lparr>clients = [], playbacks = Map.empty\<rparr> (roomOfConn connA) = None
   \<and> roomOfConn connA = ''x'' \<and> roomOfConn connB = ''x'' \<and> roomOfConn connC = ''x''
   \<and> map_option p_onTick
        (playbacks (registerAll [connA, connB, connC] \<lparr>clients = [], playbacks = Map.empty\<rparr>) ''x'')
       = Some [ResyncTick ''a'' ''x'']"
  using resync_callback_registered_once [of "\<lparr>clients = [], playbacks = Map.empty\<rparr>" connA
          "[connB, connC]"]
  by (simp add: roomOfConn_def connA_def connB_def connC_def GetRoomNameFromRequest_def
        ROOM_URL_SEGMENT_def Split_def RegisterClient_room Let_def)

text \<open>
  C6. A client joining a room whose playback state exists gets a \<open>streamload\<close> event,
  addressed to it alone, if and only if that state has a stream loaded; a client whose
  join creates the playback state gets none.
\<close>

theorem RegisterClient_streamload:
  "(\<forall>p. playbacks h (roomOfConn conn) = Some p \<longrightarrow>
      snd (RegisterClient conn h) =
        BroadcastFrom (conn_id conn) ''info_clientjoined''
          (Resp \<lparr>r_id = conn_id conn, r_from = [], r_extra = NoExtra, r_isSystem = False\<rparr>)
        # (case p_stream p of
             None \<Rightarrow> []
           | Some s \<Rightarrow>
               [BroadcastTo (conn_id conn) ''streamload''
                  (Resp \<lparr>r_id = conn_id conn, r_from = [], r_extra = InfoExtra (GetInfo s),
                         r_isSystem = False\<rparr>)])
      \<and> ((\<exists>e \<in> set (snd (RegisterClient conn h)). \<exists>c pl. e = BroadcastTo c ''streamload'' pl)
           \<longleftrightarrow> p_stream p \<noteq> None)
      \<and> (\<forall>cs e c pl. e \<in> set (snd (RegisterClient conn h)) \<and> e = BroadcastTo c ''streamload'' pl
            \<longrightarrow> receivers cs e = [conn_id conn]))
   \<and> (playbacks h (roomOfConn conn) = None \<longrightarrow>
        snd (RegisterClient conn h) =
          [BroadcastFrom (conn_id conn) ''info_clientjoined''
             (Resp \<lparr>r_id = conn_id conn, r_from = [], r_extra = NoExtra, r_isSystem = False\<rparr>)]
        \<and> \<not> (\<exists>e \<in> set (snd (RegisterClient conn h)). \<exists>c pl. e = BroadcastTo c ''streamload'' pl))"
proof (intro conjI allI impI)
  fix p
  assume "playbacks h (roomOfConn conn) = Some p"
  then have run: "snd (RegisterClient conn h) =
        BroadcastFrom (conn_id conn) ''info_clientjoined''
          (Resp \<lparr>r_id = conn_id conn, r_from = [], r_extra = NoExtra, r_isSystem = False\<rparr>)
        # (case p_stream p of
             None \<Rightarrow> []
           | Some s \<Rightarrow>
               [BroadcastTo (conn_id conn) ''streamload''
                  (Resp \<lparr>r_id = conn_id conn, r_from = [], r_extra = InfoExtra (GetInfo s),
                         r_isSystem = False\<rparr>)])"
    by (simp add: RegisterClient_room Let_def)
  then show "snd (RegisterClient conn h) =
        BroadcastFrom (conn_id conn) ''info_clientjoined''
          (Resp \<lparr>r_id = conn_id conn, r_from = [], r_extra = NoExtra, r_isSystem = False\<rparr>)
        # (case p_stream p of
             None \<Rightarrow> []
           | Some s \<Rightarrow>
               [BroadcastTo (conn_id conn) ''streamload''
                  (Resp \<lparr>r_id = conn_id conn, r_from = [], r_extra = InfoExtra (GetInfo s),
                         r_isSystem = False\<rparr>)])" .
  show "(\<exists>e \<in> set (snd (RegisterClient conn h)). \<exists>c pl. e = BroadcastTo c ''streamload'' pl)
           \<longleftrightarrow> p_stream p \<noteq> None"
    unfolding run by (cases "p_stream p") auto
  show "\<And>cs e c pl. e \<in> set (snd (RegisterClient conn h)) \<and> e = BroadcastTo c ''streamload'' pl
            \<Longrightarrow> receivers cs e = [conn_id conn]"
    unfolding run by (cases "p_stream p") auto
next
  assume "playbacks h (roomOfConn conn) = None"
  then have run: "snd (RegisterClient conn h) =
          [BroadcastFrom (conn_id conn) ''info_clientjoined''
             (Resp \<lparr>r_id = conn_id conn, r_from = [], r_extra = NoExtra, r_isSystem = False\<rparr>)]"
    by (simp add: RegisterClient_room Let_def)
  then show "snd (RegisterClient conn h) =
          [BroadcastFrom (conn_id conn) ''info_clientjoined''
             (Resp \<lparr>r_id = conn_id conn, r_from = [], r_extra = NoExtra, r_isSystem = False\<rparr>)]" .
  show "\<not> (\<exists>e \<in> set (snd (RegisterClient conn h)). \<exists>c pl. e = BroadcastTo c ''streamload'' pl)"
    unfolding run by simp
qed

theorem RegisterClient_streamload_witness:
  "playbacks loaded (roomOfConn connC) = Some (NewStreamPlayback\<lparr>p_stream := Some (Stream ''u'' ''info'')\<rparr>)
   \<and> snd (RegisterClient connC loaded) =
       [BroadcastFrom ''c'' ''info_clientjoined''
          (Resp \<lparr>r_id = ''c'', r_from = [], r_extra = NoExtra, r_isSystem = False\<rparr>),
        BroadcastTo ''c'' ''streamload''
          (Resp \<lparr>r_id = ''c'', r_from = [], r_extra = InfoExtra ''info'', r_isSystem = False\<rparr>)]
   \<and> snd (RegisterClient connC roomX) =
       [BroadcastFrom ''c'' ''info_clientjoined''
          (Resp \<lparr>r_id = ''c'', r_from = [], r_extra = NoExtra, r_isSystem = False\<rparr>)]
   \<and> snd (RegisterClient connC \<lparr>clients = [], playbacks = Map.empty\<rparr>) =
       [BroadcastFrom ''c'' ''info_clientjoined''
          (Resp \<lparr>r_id = ''c'', r_from = [], r_extra = NoExtra, r_isSystem = False\<rparr>)]"
  using RegisterClient_streamload [of loaded connC]
    RegisterClient_streamload [of roomX connC]
    RegisterClient_streamload [of "\<lparr>clients = [], playbacks = Map.empty\<rparr>" connC]
  by (simp add: roomOfConn_def connC_def GetRoomNameFromRequest_def ROOM_URL_SEGMENT_def
        Split_def loaded_def roomX_def NewStreamPlayback_def)

section \<open>Room selection\<close>

lemma splitOn_many_iff:
  "sep \<noteq> [] \<Longrightarrow> length (splitOn sep acc s) > 1 \<longleftrightarrow> Contains s sep"
proof (induction sep acc s rule: splitOn.induct)
  case (1 sep acc)
  then show ?case by simp
next
  case (2 sep acc c cs)
  show ?case
  proof (cases "take (length sep) (c # cs) = sep")
    case True
    have "splitOn sep [] (drop (length sep) (c # cs)) \<noteq> []" by (rule splitOn_not_Nil)
    then have "length (splitOn sep [] (drop (length sep) (c # cs))) > 0" by blast
    then show ?thesis using True "2.prems" by simp
  next
    case False
    then show ?thesis using "2.IH"(2) "2.prems" by simp
  qed
qed

text \<open>
  C8, as stated, fails: a URL whose \<open>/v/\<close> segment has no name after it is malformed,
  yet the client does not join the lobby: the room name is the empty string. A second
  \<open>/v/\<close> ends the name.
\<close>

theorem GetRoomNameFromRequest_counterexample:
  "GetRoomNameFromRequest ''http://host/v/'' = Inr ''''
   \<and> roomOfConn \<lparr>conn_id = ''d'', conn_url = ''http://host/v/''\<rparr> = ''''
   \<and> GetRoomNameFromRequest ''http://host/v/x/v/y'' = Inr ''x''"
  by (simp add: GetRoomNameFromRequest_def roomOfConn_def ROOM_URL_SEGMENT_def Split_def)

text \<open>
  C8, amended. The room is derived from the request URL: it is the lobby exactly when
  \<open>/v/\<close> does not occur in the URL (then \<open>GetRoomNameFromRequest\<close> returns its error).
  Otherwise, with \<open>/v/\<close> first occurring after \<open>pre\<close>, the room is the text that follows
  it, up to the next \<open>/v/\<close> if there is one and the whole rest otherwise, be it empty or
  not. The client that \<open>RegisterClient\<close> creates is in that room.
\<close>

theorem GetRoomNameFromRequest_segment:
  "(\<not> Contains url ''/v/'' \<longrightarrow>
      GetRoomNameFromRequest url = Inl UnsupportedRoomSegment
      \<and> roomOfConn \<lparr>conn_id = connId, conn_url = url\<rparr> = ''lobby'')
   \<and> (Contains url ''/v/'' \<longrightarrow>
        GetRoomNameFromRequest url = Inr (Split url ''/v/'' ! 1)
        \<and> roomOfConn \<lparr>conn_id = connId, conn_url = url\<rparr> = Split url ''/v/'' ! 1)
   \<and> (url = pre @ ''/v/'' @ rest \<and> \<not> Contains (pre @ ''/v'') ''/v/'' \<longrightarrow>
        GetRoomNameFromRequest url = Inr (hd (Split rest ''/v/''))
        \<and> roomOfConn \<lparr>conn_id = connId, conn_url = url\<rparr> = hd (Split rest ''/v/'')
        \<and> (\<not> Contains rest ''/v/'' \<longrightarrow> hd (Split rest ''/v/'') = rest))
   \<and> (\<exists>c. clients (fst (RegisterClient conn h)) = clients h @ [c]
           \<and> c_id c = conn_id conn \<and> c_room c = Some (roomOfConn conn))"
proof (intro conjI impI)
  assume "\<not> Contains url ''/v/''"
  then have "Split url ''/v/'' = [url]" by (simp add: Split_def splitOn_absent)
  then show "GetRoomNameFromRequest url = Inl UnsupportedRoomSegment"
    and "roomOfConn \<lparr>conn_id = connId, conn_url = url\<rparr> = ''lobby''"
    by (simp_all add: GetRoomNameFromRequest_def roomOfConn_def ROOM_URL_SEGMENT_def
          ROOM_DEFAULT_LOBBY_def)
next
  assume "Contains url ''/v/''"
  then have "length (Split url ''/v/'') > 1"
    using splitOn_many_iff [of "''/v/''" "[]" url] by (simp add: Split_def)
  then show "GetRoomNameFromRequest url = Inr (Split url ''/v/'' ! 1)"
    and "roomOfConn \<lparr>conn_id = connId, conn_url = url\<rparr> = Split url ''/v/'' ! 1"
    by (simp_all add: GetRoomNameFromRequest_def roomOfConn_def ROOM_URL_SEGMENT_def)
next
  assume a: "url = pre @ ''/v/'' @ rest \<and> \<not> Contains (pre @ ''/v'') ''/v/''"
  have "splitOn ''/v/'' [] (pre @ ''/v/'' @ rest) = ([] @ pre) # splitOn ''/v/'' [] rest"
    using a by (intro splitOn_first) simp_all
  then have s: "Split url ''/v/'' = pre # Split rest ''/v/''" using a by (simp add: Split_def)
  have ne: "Split rest ''/v/'' \<noteq> []" by (simp add: Split_def splitOn_not_Nil)
  then have "(pre # Split rest ''/v/'') ! 1 = hd (Split rest ''/v/'')"
    by (cases "Split rest ''/v/''") simp_all
  then show "GetRoomNameFromRequest url = Inr (hd (Split rest ''/v/''))"
    and "roomOfConn \<lparr>conn_id = connId, conn_url = url\<rparr> = hd (Split rest ''/v/'')"
    using s ne by (simp_all add: GetRoomNameFromRequest_def roomOfConn_def ROOM_URL_SEGMENT_def)
next
  assume "\<not> Contains rest ''/v/''"
  then show "hd (Split rest ''/v/'') = rest" by (simp add: Split_def splitOn_absent)
next
  show "\<exists>c. clients (fst (RegisterClient conn h)) = clients h @ [c]
           \<and> c_id c = conn_id conn \<and> c_room c = Some (roomOfConn conn)"
    by (auto simp: RegisterClient_room Let_def split: option.splits)
qed

theorem GetRoomNameFromRequest_segment_witness:
  "\<not> Contains ''http://host/socket.io/'' ''/v/''
   \<and> roomOfConn connD = ''lobby''
   \<and> Contains ''http://host/v/x'' ''/v/''
   \<and> \<not> Contains (''http://host'' @ ''/v'') ''/v/'' \<and> \<not> Contains ''x'' ''/v/''
   \<and> GetRoomNameFromRequest ''http://host/v/x'' = Inr ''x''
   \<and> roomOfConn connA = ''x''"
  using GetRoomNameFromRequest_segment [of "''http://host/socket.io/''" "''d''" "''''" "''''"]
    GetRoomNameFromRequest_segment [of "''http://host/v/x''" "''a''" "''http://host''" "''x''"]
  by (simp add: connD_def connA_def Split_def)

end
